theory Spec2Isabelle
  imports Main "HOL-Library.AList"
begin

section \<open>Python values, errors and strings\<close>

text \<open>
  The values that end up in a JSON log object: \<open>None\<close>, a string or an integer.
  Strings are \<open>char list\<close>; header and framework names are ASCII.
\<close>

datatype pyval = PNone | PStr string | PInt int

text \<open>The exceptions the modelled code raises; the string is the message or the missing name.\<close>

datatype error =
    RuntimeError string
  | ValueError string
  | AttributeError string
  | KeyError string

text \<open>Python truthiness (\<open>if value:\<close>) of the modelled values.\<close>

fun truthy :: "pyval \<Rightarrow> bool" where
  "truthy PNone = False"
| "truthy (PStr s) = (s \<noteq> [])"
| "truthy (PInt i) = (i \<noteq> 0)"

definition translate_char :: "string \<Rightarrow> string \<Rightarrow> char \<Rightarrow> char" where
  "translate_char src dst c = (case map_of (zip src dst) c of Some u \<Rightarrow> u | None \<Rightarrow> c)"

text \<open>\<open>str.upper()\<close> and \<open>str.lower()\<close> on ASCII text.\<close>

definition upper :: "string \<Rightarrow> string" where
  "upper s = map (translate_char ''abcdefghijklmnopqrstuvwxyz'' ''ABCDEFGHIJKLMNOPQRSTUVWXYZ'') s"

definition lower :: "string \<Rightarrow> string" where
  "lower s = map (translate_char ''ABCDEFGHIJKLMNOPQRSTUVWXYZ'' ''abcdefghijklmnopqrstuvwxyz'') s"

text \<open>\<open>s.replace(old, new)\<close> for one-character \<open>old\<close> and \<open>new\<close>.\<close>

definition replace :: "char \<Rightarrow> char \<Rightarrow> string \<Rightarrow> string" where
  "replace old new s = map (\<lambda>c. if c = old then new else c) s"

section \<open>Module constants of \<open>json_logging/__init__.py\<close>\<close>

definition EMPTY_VALUE :: string where
  "EMPTY_VALUE = ''-''"

definition CORRELATION_ID_HEADERS :: "string list" where
  "CORRELATION_ID_HEADERS = [''X-Correlation-ID'', ''X-Request-ID'']"

definition COMPONENT_ID :: string where
  "COMPONENT_ID = EMPTY_VALUE"

definition COMPONENT_NAME :: string where
  "COMPONENT_NAME = EMPTY_VALUE"

definition COMPONENT_INSTANCE_INDEX :: int where
  "COMPONENT_INSTANCE_INDEX = 0"

section \<open>The Django adapters (\<open>json_logging/framework/django/__init__.py\<close>)\<close>

text \<open>
  What the adapter reads of a Django \<open>HttpRequest\<close>: the \<open>META\<close> dictionary, \<open>path\<close>,
  \<open>method\<close> (field \<open>request_method\<close>), and the user name when the request has a \<open>user\<close> attribute.
\<close>

record HttpRequest =
  META :: "string \<rightharpoonup> pyval"
  path :: string
  request_method :: string
  user :: "string option"

text \<open>
  What the adapter reads of a Django response: \<open>status_code\<close>, the header store behind
  \<open>'name' in response\<close> and \<open>response['name']\<close> (keyed here by the spelling the adapter
  uses), and the result of \<open>response.tell()\<close>, \<open>None\<close> when it raises \<open>OSError\<close>.
\<close>

record HttpResponse =
  status_code :: int
  headers :: "string \<rightharpoonup> pyval"
  tell :: "int option"

definition get_http_header :: "HttpRequest \<Rightarrow> string \<Rightarrow> pyval \<Rightarrow> pyval" where
  "get_http_header request header_name dflt =
     (let header_name_converted = ''HTTP_'' @ replace CHR ''-'' CHR ''_'' (upper header_name)
      in case META request header_name_converted of Some v \<Rightarrow> v | None \<Rightarrow> dflt)"

definition get_remote_user :: "HttpRequest \<Rightarrow> pyval" where
  "get_remote_user request =
     (case user request of Some username \<Rightarrow> PStr username | None \<Rightarrow> PStr EMPTY_VALUE)"

definition is_in_request_context :: "HttpRequest option \<Rightarrow> bool" where
  "is_in_request_context request = (request \<noteq> None)"

definition set_correlation_id :: "HttpRequest \<Rightarrow> pyval \<Rightarrow> HttpRequest" where
  "set_correlation_id request v = request\<lparr>META := (META request)(''HTTP_X_CORRELATION_ID'' \<mapsto> v)\<rparr>"

definition meta_get :: "HttpRequest \<Rightarrow> string \<Rightarrow> pyval \<Rightarrow> pyval" where
  "meta_get request key dflt = (case META request key of Some v \<Rightarrow> v | None \<Rightarrow> dflt)"

definition get_correlation_id_in_request_context :: "HttpRequest \<Rightarrow> pyval" where
  "get_correlation_id_in_request_context request =
     meta_get request ''HTTP_X_CORRELATION_ID'' (PStr EMPTY_VALUE)"

definition get_protocol :: "HttpRequest \<Rightarrow> pyval" where
  "get_protocol request = meta_get request ''SERVER_PROTOCOL'' (PStr EMPTY_VALUE)"

definition get_path :: "HttpRequest \<Rightarrow> pyval" where
  "get_path request = PStr (path request)"

definition get_content_length :: "HttpRequest \<Rightarrow> pyval" where
  "get_content_length request = meta_get request ''CONTENT_LENGTH'' (PStr EMPTY_VALUE)"

definition get_method :: "HttpRequest \<Rightarrow> pyval" where
  "get_method request = PStr (request_method request)"

definition get_remote_ip :: "HttpRequest \<Rightarrow> pyval" where
  "get_remote_ip request = meta_get request ''REMOTE_ADDR'' (PStr EMPTY_VALUE)"

definition get_remote_port :: "HttpRequest \<Rightarrow> pyval" where
  "get_remote_port request = PStr EMPTY_VALUE"

definition get_status_code :: "HttpResponse \<Rightarrow> pyval" where
  "get_status_code response = PInt (status_code response)"

definition get_response_size :: "HttpResponse \<Rightarrow> pyval" where
  "get_response_size response =
     (case headers response ''Content-Length'' of
        Some v \<Rightarrow> v
      | None \<Rightarrow> (case tell response of Some n \<Rightarrow> PInt n | None \<Rightarrow> PStr EMPTY_VALUE))"

text \<open>\<open>response['Content-Type']\<close> raises \<open>KeyError\<close> when the response has no such header.\<close>

definition get_content_type :: "HttpResponse \<Rightarrow> error + pyval" where
  "get_content_type response =
     (case headers response ''Content-Type'' of
        Some v \<Rightarrow> Inr v
      | None \<Rightarrow> Inl (KeyError ''Content-Type''))"

section \<open>Time: \<open>datetime\<close>, \<open>timedelta\<close> and binary64 division\<close>

text \<open>
  A \<open>datetime.utcnow()\<close> reading is the number of microseconds since the epoch, and a
  \<open>timedelta\<close> is its total number of microseconds: \<open>datetime\<close> subtraction is exact, and the
  normalised fields of the difference are \<open>microseconds = td mod 10^6\<close> (always in
  \<open>0..999999\<close>) and whole seconds and days above it.
\<close>

type_synonym datetime = int
type_synonym timedelta = int

text \<open>
  \<open>int / int\<close> is Python's true division: the binary64 number nearest to the exact
  quotient, ties to even. A finite binary64 number is \<open>m * 2^e\<close> with a mantissa of at most
  53 bits; it is the pair \<open>(m, e)\<close>. The quotients computed here are far from the
  overflow and subnormal ranges, so the exponent is not bounded in the model.
\<close>

type_synonym binary64 = "int \<times> int"

function bit_length :: "int \<Rightarrow> int" where
  "bit_length n = (if n \<le> 0 then 0 else 1 + bit_length (n div 2))"
  by pat_completeness auto
termination
  by (relation "measure nat") auto

declare bit_length.simps [simp del]

text \<open>The integer nearest to \<open>n / d\<close> (for \<open>d > 0\<close>), ties to the even one.\<close>

definition round_half_even :: "int \<Rightarrow> int \<Rightarrow> int" where
  "round_half_even n d =
     (let q = n div d; r = n mod d
      in if 2 * r < d then q else if d < 2 * r then q + 1 else if even q then q else q + 1)"

text \<open>\<open>scaled_le b e a\<close> is \<open>b * 2^e \<le> a\<close> for an exponent \<open>e\<close> of either sign.\<close>

definition scaled_le :: "int \<Rightarrow> int \<Rightarrow> int \<Rightarrow> bool" where
  "scaled_le b e a = (if 0 \<le> e then b * 2 ^ nat e \<le> a else b \<le> a * 2 ^ nat (- e))"

text \<open>The exponent \<open>e\<close> with \<open>2^e \<le> a / b < 2^(e+1)\<close>, for positive \<open>a\<close> and \<open>b\<close>.\<close>

definition quotient_exponent :: "int \<Rightarrow> int \<Rightarrow> int" where
  "quotient_exponent a b =
     (let d = bit_length a - bit_length b
      in if scaled_le b d a then d else d - 1)"

text \<open>
  The quotient of positive integers: the exact quotient is scaled so that its integer part
  has 53 bits, and rounded there.
\<close>

definition truediv_pos :: "int \<Rightarrow> int \<Rightarrow> binary64" where
  "truediv_pos a b =
     (let s = 52 - quotient_exponent a b;
          m = (if 0 \<le> s then round_half_even (a * 2 ^ nat s) b
               else round_half_even a (b * 2 ^ nat (- s)))
      in (m, - s))"

text \<open>\<open>a / b\<close> for a positive divisor \<open>b\<close> (both divisors of the source are constants).\<close>

definition truediv :: "int \<Rightarrow> int \<Rightarrow> binary64" where
  "truediv a b =
     (if a = 0 then (0, 0)
      else if 0 < a then truediv_pos a b
      else (let (m, e) = truediv_pos (- a) b in (- m, e)))"

text \<open>\<open>int(x)\<close> of a float: truncation towards zero.\<close>

definition int_of_float :: "binary64 \<Rightarrow> int" where
  "int_of_float x =
     (let (m, e) = x;
          t = (if 0 \<le> e then \<bar>m\<bar> * 2 ^ nat e else \<bar>m\<bar> div 2 ^ nat (- e))
      in if 0 \<le> m then t else - t)"

definition microseconds :: "timedelta \<Rightarrow> int" where
  "microseconds td = td mod 1000000"

definition total_seconds :: "timedelta \<Rightarrow> binary64" where
  "total_seconds td = truediv td 1000000"

section \<open>Helpers of \<open>json_logging/util.py\<close> and the \<open>RequestUtil\<close> facade\<close>

text \<open>
  \<open>json_logging/util.py\<close> is not among the sources. The functions of the module that
  the formatters call are parameters of the model: a record of the three pure helpers,
  and the facade object held in the global \<open>_request_util\<close>, of which the formatters
  call \<open>get_correlation_id\<close> with a request (it may write the id back onto the request,
  so it returns the request as well) and without one.
\<close>

record util =
  iso_time_format :: "datetime \<Rightarrow> string"
  epoch_nano_second :: "datetime \<Rightarrow> int"
  parse_int :: "pyval \<Rightarrow> int \<Rightarrow> int"

record RequestUtil =
  get_correlation_id :: "HttpRequest \<Rightarrow> (error + pyval) \<times> HttpRequest"
  get_correlation_id_no_request :: "error + pyval"

section \<open>JSON objects\<close>

text \<open>
  A Python \<open>dict\<close> with string keys, in insertion order. \<open>d.update(other)\<close> stores each
  item of \<open>other\<close> in turn: an existing key keeps its position and takes the new value, a
  new key is appended.
\<close>

type_synonym json_object = "(string \<times> pyval) list"

definition dict_update :: "json_object \<Rightarrow> json_object \<Rightarrow> json_object" where
  "dict_update d other = fold (\<lambda>(k, v). AList.update k v) other d"

section \<open>\<open>RequestInfo\<close>\<close>

text \<open>
  The attributes of a \<open>RequestInfo\<close>. The five response attributes do not exist until
  \<open>update_response_status\<close> assigns them: \<open>None\<close> is the missing attribute.
\<close>

record RequestInfo =
  request :: HttpRequest
  request_start :: datetime
  request_received_at :: string
  response_time_ms :: "int option"
  response_status :: "pyval option"
  response_size_b :: "pyval option"
  response_content_type :: "pyval option"
  response_sent_at :: "string option"

text \<open>\<open>RequestInfo(request)\<close>, with the reading \<open>utcnow\<close> of the clock.\<close>

definition RequestInfo_init :: "util \<Rightarrow> datetime \<Rightarrow> HttpRequest \<Rightarrow> RequestInfo" where
  "RequestInfo_init u utcnow req =
     \<lparr>request = req, request_start = utcnow, request_received_at = iso_time_format u utcnow,
      response_time_ms = None, response_status = None, response_size_b = None,
      response_content_type = None, response_sent_at = None\<rparr>"

text \<open>
  \<open>update_response_status\<close> assigns the attributes one after the other, so an exception
  leaves the earlier ones assigned: the result is the outcome and the object as it is then.
  \<open>ru\<close> is the global \<open>_request_util\<close> (\<open>None\<close> before \<open>init\<close> selected a framework).
\<close>

definition update_response_status ::
  "util \<Rightarrow> RequestUtil option \<Rightarrow> datetime \<Rightarrow> HttpResponse \<Rightarrow> RequestInfo
     \<Rightarrow> (error + unit) \<times> RequestInfo" where
  "update_response_status u ru utcnow response self =
     (case ru of
        None \<Rightarrow> (Inl (AttributeError ''response_adapter''), self)
      | Some _ \<Rightarrow>
          (let time_delta = utcnow - request_start self;
               self1 = self\<lparr>response_time_ms :=
                 Some (int_of_float (total_seconds time_delta) * 1000
                       + int_of_float (truediv (microseconds time_delta) 1000))\<rparr>;
               self2 = self1\<lparr>response_status := Some (get_status_code response)\<rparr>;
               self3 = self2\<lparr>response_size_b := Some (get_response_size response)\<rparr>
           in case get_content_type response of
                Inl e \<Rightarrow> (Inl e, self3)
              | Inr content_type \<Rightarrow>
                  (Inr (), self3\<lparr>response_content_type := Some content_type,
                                  response_sent_at := Some (iso_time_format u utcnow)\<rparr>)))"

section \<open>The formatters\<close>

text \<open>
  What the formatters read of a \<open>logging.LogRecord\<close>. \<open>message\<close> is what
  \<open>record.getMessage()\<close> returns; \<open>props\<close> is \<open>None\<close> when the record has no such
  attribute; \<open>exc_info\<close>, when set, is the exception triple, represented by the lines that
  \<open>traceback.format_exception\<close> renders for it.
\<close>

record LogRecord =
  name :: string
  threadName :: string
  levelname :: string
  lineno :: int
  module :: string
  filename :: string
  message :: string
  props :: "json_object option"
  exc_info :: "string list option"
  exc_text :: "string option"

definition format_exception :: "string list option \<Rightarrow> string" where
  "format_exception ei = (case ei of Some rendered \<Rightarrow> concat rendered | None \<Rightarrow> [])"

definition get_exc_fields :: "LogRecord \<Rightarrow> json_object" where
  "get_exc_fields r =
     (let ei = (if exc_info r \<noteq> None then PStr (format_exception (exc_info r))
                else (case exc_text r of Some t \<Rightarrow> PStr t | None \<Rightarrow> PNone))
      in [(''exc_info'', ei), (''filename'', PStr (filename r))])"

text \<open>\<open>record.exc_info or record.exc_text\<close>, as a condition.\<close>

definition has_exception :: "LogRecord \<Rightarrow> bool" where
  "has_exception r = (exc_info r \<noteq> None \<or> (case exc_text r of Some t \<Rightarrow> t \<noteq> [] | None \<Rightarrow> False))"

text \<open>The dictionary literal of \<open>JSONLogFormatter.format\<close>.\<close>

definition log_fields :: "util \<Rightarrow> datetime \<Rightarrow> LogRecord \<Rightarrow> json_object" where
  "log_fields u utcnow r =
     [(''type'', PStr ''log''),
      (''written_at'', PStr (iso_time_format u utcnow)),
      (''written_ts'', PInt (epoch_nano_second u utcnow)),
      (''component_id'', PStr COMPONENT_ID),
      (''component_name'', PStr COMPONENT_NAME),
      (''component_instance'', PInt COMPONENT_INSTANCE_INDEX),
      (''logger'', PStr (name r)),
      (''thread'', PStr (threadName r)),
      (''level'', PStr (levelname r)),
      (''line_no'', PInt (lineno r)),
      (''module'', PStr (module r)),
      (''msg'', PStr (message r))]"

text \<open>The two \<open>update\<close> statements that both log formatters apply to their literal.\<close>

definition merge_props_and_exc :: "LogRecord \<Rightarrow> json_object \<Rightarrow> json_object" where
  "merge_props_and_exc r json_log_object =
     (let o1 = (case props r of Some p \<Rightarrow> dict_update json_log_object p | None \<Rightarrow> json_log_object)
      in if has_exception r then dict_update o1 (get_exc_fields r) else o1)"

definition JSONLogFormatter_json_log_object :: "util \<Rightarrow> datetime \<Rightarrow> LogRecord \<Rightarrow> json_object" where
  "JSONLogFormatter_json_log_object u utcnow r = merge_props_and_exc r (log_fields u utcnow r)"

text \<open>
  \<open>JSONLogFormatter.format\<close>: \<open>utcnow\<close> is the reading of the clock that the call takes,
  \<open>serializer\<close> is \<open>JSON_SERIALIZER\<close> (\<open>json.dumps\<close> by default).
\<close>

definition JSONLogFormatter_format ::
  "(json_object \<Rightarrow> string) \<Rightarrow> util \<Rightarrow> datetime \<Rightarrow> LogRecord \<Rightarrow> string" where
  "JSONLogFormatter_format serializer u utcnow r =
     serializer (JSONLogFormatter_json_log_object u utcnow r)"

text \<open>The dictionary literal of \<open>JSONLogWebFormatter.format\<close>, with the correlation id \<open>cid\<close>.\<close>

definition web_log_fields :: "util \<Rightarrow> datetime \<Rightarrow> LogRecord \<Rightarrow> pyval \<Rightarrow> json_object" where
  "web_log_fields u utcnow r cid =
     [(''type'', PStr ''log''),
      (''written_at'', PStr (iso_time_format u utcnow)),
      (''written_ts'', PInt (epoch_nano_second u utcnow)),
      (''component_id'', PStr COMPONENT_ID),
      (''component_name'', PStr COMPONENT_NAME),
      (''component_instance'', PInt COMPONENT_INSTANCE_INDEX),
      (''logger'', PStr (name r)),
      (''thread'', PStr (threadName r)),
      (''level'', PStr (levelname r)),
      (''module'', PStr (module r)),
      (''line_no'', PInt (lineno r)),
      (''correlation_id'', cid),
      (''msg'', PStr (message r))]"

definition JSONLogWebFormatter_json_log_object ::
  "util \<Rightarrow> RequestUtil option \<Rightarrow> datetime \<Rightarrow> LogRecord \<Rightarrow> error + json_object" where
  "JSONLogWebFormatter_json_log_object u ru utcnow r =
     (case ru of
        None \<Rightarrow> Inl (AttributeError ''get_correlation_id'')
      | Some request_util \<Rightarrow>
          (case get_correlation_id_no_request request_util of
             Inl e \<Rightarrow> Inl e
           | Inr cid \<Rightarrow> Inr (merge_props_and_exc r (web_log_fields u utcnow r cid))))"

definition JSONLogWebFormatter_format ::
  "(json_object \<Rightarrow> string) \<Rightarrow> util \<Rightarrow> RequestUtil option \<Rightarrow> datetime \<Rightarrow> LogRecord
     \<Rightarrow> error + string" where
  "JSONLogWebFormatter_format serializer u ru utcnow r =
     (case JSONLogWebFormatter_json_log_object u ru utcnow r of
        Inl e \<Rightarrow> Inl e
      | Inr json_log_object \<Rightarrow> Inr (serializer json_log_object))"

text \<open>Reading an attribute of a \<open>RequestInfo\<close> that may not have been assigned.\<close>

definition getattr :: "string \<Rightarrow> 'a option \<Rightarrow> error + 'a" where
  "getattr attr v = (case v of Some x \<Rightarrow> Inr x | None \<Rightarrow> Inl (AttributeError attr))"

text \<open>
  The dictionary literal of \<open>JSONRequestLogFormatter.format\<close>. Its entries are evaluated
  in order: the correlation id first among those that can fail, then the reads of the
  request (as \<open>get_correlation_id\<close> left it), then the attributes of the \<open>RequestInfo\<close>.
\<close>

definition JSONRequestLogFormatter_json_log_object ::
  "util \<Rightarrow> RequestUtil option \<Rightarrow> datetime \<Rightarrow> RequestInfo \<Rightarrow> error + json_object" where
  "JSONRequestLogFormatter_json_log_object u ru utcnow request_info =
     (case ru of
        None \<Rightarrow> Inl (AttributeError ''request_adapter'')
      | Some request_util \<Rightarrow>
          (let length = get_content_length (request request_info);
               (cid, req) = get_correlation_id request_util (request request_info)
           in case cid of
                Inl e \<Rightarrow> Inl e
              | Inr correlation_id \<Rightarrow>
          (case getattr ''response_time_ms'' (response_time_ms request_info) of
             Inl e \<Rightarrow> Inl e
           | Inr time_ms \<Rightarrow>
          (case getattr ''response_status'' (response_status request_info) of
             Inl e \<Rightarrow> Inl e
           | Inr status \<Rightarrow>
          (case getattr ''response_size_b'' (response_size_b request_info) of
             Inl e \<Rightarrow> Inl e
           | Inr size_b \<Rightarrow>
          (case getattr ''response_content_type'' (response_content_type request_info) of
             Inl e \<Rightarrow> Inl e
           | Inr content_type \<Rightarrow>
          (case getattr ''response_sent_at'' (response_sent_at request_info) of
             Inl e \<Rightarrow> Inl e
           | Inr sent_at \<Rightarrow>
               Inr [(''type'', PStr ''request''),
                    (''written_at'', PStr (iso_time_format u utcnow)),
                    (''written_ts'', PInt (epoch_nano_second u utcnow)),
                    (''component_id'', PStr COMPONENT_ID),
                    (''component_name'', PStr COMPONENT_NAME),
                    (''component_instance'', PInt COMPONENT_INSTANCE_INDEX),
                    (''correlation_id'', correlation_id),
                    (''remote_user'', get_remote_user req),
                    (''request'', get_path req),
                    (''referer'', get_http_header req ''referer'' (PStr EMPTY_VALUE)),
                    (''x_forwarded_for'', get_http_header req ''x-forwarded-for'' (PStr EMPTY_VALUE)),
                    (''protocol'', get_protocol req),
                    (''method'', get_method req),
                    (''remote_ip'', get_remote_ip req),
                    (''request_size_b'', PInt (parse_int u length (- 1))),
                    (''remote_host'', get_remote_ip req),
                    (''remote_port'', get_remote_port req),
                    (''request_received_at'', PStr (request_received_at request_info)),
                    (''response_time_ms'', PInt time_ms),
                    (''response_status'', status),
                    (''response_size_b'', size_b),
                    (''response_content_type'', content_type),
                    (''response_sent_at'', PStr sent_at)])))))))"

definition JSONRequestLogFormatter_format ::
  "(json_object \<Rightarrow> string) \<Rightarrow> util \<Rightarrow> RequestUtil option \<Rightarrow> datetime \<Rightarrow> RequestInfo
     \<Rightarrow> error + string" where
  "JSONRequestLogFormatter_format serializer u ru utcnow request_info =
     (case JSONRequestLogFormatter_json_log_object u ru utcnow request_info of
        Inl e \<Rightarrow> Inl e
      | Inr json_log_object \<Rightarrow> Inr (serializer json_log_object))"

text \<open>A JSON object without its two timestamp fields.\<close>

definition without_timestamps :: "json_object \<Rightarrow> json_object" where
  "without_timestamps obj = filter (\<lambda>(k, v). k \<noteq> ''written_at'' \<and> k \<noteq> ''written_ts'') obj"

section \<open>The framework registry and \<open>init\<close>\<close>

text \<open>
  A class object, as far as the registry looks at it: its name and the names of the
  classes it derives from. \<open>issubclass(c, base)\<close> holds for the class itself and for
  every class it derives from.
\<close>

record pyclass =
  class_name :: string
  class_bases :: "string list"

definition issubclass :: "pyclass \<Rightarrow> string \<Rightarrow> bool" where
  "issubclass c base = (base \<in> set (class_name c # class_bases c))"

text \<open>
  Modelled from the spec: \<open>util.validate_subclass\<close> (\<open>json_logging/util.py\<close> is not among
  the sources). Section 4.6: registration validates that the supplied types satisfy the
  adapter and configurator contracts before storing; section 7: a type that does not
  conform is a configuration error, raised immediately.
\<close>

definition validate_subclass :: "pyclass \<Rightarrow> string \<Rightarrow> error + unit" where
  "validate_subclass c base =
     (if issubclass c base then Inr ()
      else Inl (RuntimeError (class_name c @ '' is not a subclass of '' @ base)))"

text \<open>An entry of \<open>_framework_support_map\<close>.\<close>

record framework_support =
  app_configurator :: "pyclass option"
  app_request_instrumentation_configurator :: pyclass
  request_adapter_class :: pyclass
  response_adapter_class :: pyclass

datatype log_level = DEBUG | INFO | WARNING | ERROR

text \<open>
  The module's global state and what \<open>init\<close> and \<open>register_framework_support\<close> do to
  the world around it: \<open>request_util\<close> holds the two classes that the \<open>RequestUtil\<close> in
  \<open>_request_util\<close> was built from, \<open>logged\<close> the messages sent to the library logger
  \<open>_logger\<close>, \<open>configured\<close> the app configurators whose \<open>config()\<close> has run,
  \<open>defaultFormatter\<close> the class installed as \<open>logging._defaultFormatter\<close>, and
  \<open>loggers_formatter\<close> the class handed to \<open>util.update_formatter_for_loggers\<close> for the
  loggers that exist.
\<close>

record module_state =
  ENABLE_JSON_LOGGING :: bool
  framework_support_map :: "string \<rightharpoonup> framework_support"
  current_framework :: "framework_support option"
  request_util :: "(pyclass \<times> pyclass) option"
  logged :: "(log_level \<times> string) list"
  configured :: "pyclass list"
  defaultFormatter :: "pyclass option"
  loggers_formatter :: "pyclass option"

definition log_to :: "log_level \<Rightarrow> string \<Rightarrow> module_state \<Rightarrow> module_state" where
  "log_to level msg s = s\<lparr>logged := logged s @ [(level, msg)]\<rparr>"

text \<open>
  \<open>register_framework_support\<close>. The name is a string (\<open>None\<close> is rejected like the empty
  string). A function that raises returns the error and the state as it is then.
\<close>

definition register_framework_support ::
  "string \<Rightarrow> pyclass option \<Rightarrow> pyclass \<Rightarrow> pyclass \<Rightarrow> pyclass \<Rightarrow> module_state
     \<Rightarrow> (error + unit) \<times> module_state" where
  "register_framework_support framework_name app_conf instrumentation_conf request_adapter
       response_adapter s =
     (if framework_name = [] then (Inl (RuntimeError ''framework name can not be null or empty''), s)
      else case validate_subclass request_adapter ''RequestAdapter'' of
        Inl e \<Rightarrow> (Inl e, s)
      | Inr _ \<Rightarrow>
      (case validate_subclass response_adapter ''ResponseAdapter'' of
        Inl e \<Rightarrow> (Inl e, s)
      | Inr _ \<Rightarrow>
      (case validate_subclass instrumentation_conf ''AppRequestInstrumentationConfigurator'' of
        Inl e \<Rightarrow> (Inl e, s)
      | Inr _ \<Rightarrow>
      (case (case app_conf of None \<Rightarrow> Inr ()
             | Some c \<Rightarrow> validate_subclass c ''FrameworkConfigurator'') of
        Inl e \<Rightarrow> (Inl e, s)
      | Inr _ \<Rightarrow>
          (let lname = lower framework_name;
               s1 = (if framework_support_map s lname \<noteq> None
                     then log_to WARNING (''Re-register framework '' @ lname) s else s)
           in (Inr (),
               s1\<lparr>framework_support_map := (framework_support_map s1)(lname \<mapsto>
                    \<lparr>app_configurator = app_conf,
                     app_request_instrumentation_configurator = instrumentation_conf,
                     request_adapter_class = request_adapter,
                     response_adapter_class = response_adapter\<rparr>)\<rparr>))))))"

definition JSONLogFormatter :: pyclass where
  "JSONLogFormatter = \<lparr>class_name = ''JSONLogFormatter'', class_bases = [''logging.Formatter'']\<rparr>"

definition JSONLogWebFormatter :: pyclass where
  "JSONLogWebFormatter = \<lparr>class_name = ''JSONLogWebFormatter'', class_bases = [''logging.Formatter'']\<rparr>"

text \<open>\<open>str(framework_name)\<close>\<close>

definition str_of_name :: "string option \<Rightarrow> string" where
  "str_of_name framework_name = (case framework_name of None \<Rightarrow> ''None'' | Some n \<Rightarrow> n)"

text \<open>
  The \<open>if framework_name: ... elif custom_formatter: ... else: ...\<close> statement of \<open>init\<close>:
  it binds \<open>_current_framework\<close> and \<open>_request_util\<close>, runs the app configurator, and
  yields the formatter class.
\<close>

definition init_select ::
  "string option \<Rightarrow> pyclass option \<Rightarrow> module_state \<Rightarrow> (error + pyclass) \<times> module_state" where
  "init_select framework_name custom_formatter s =
     (if framework_name \<noteq> None \<and> framework_name \<noteq> Some [] then
        (let lname = lower (str_of_name framework_name)
         in case framework_support_map s lname of
              None \<Rightarrow> (Inl (RuntimeError (lname @ ''is not a supported framework'')), s)
            | Some fw \<Rightarrow>
                (let s1 = s\<lparr>current_framework := Some fw,
                             request_util := Some (request_adapter_class fw, response_adapter_class fw)\<rparr>;
                     s2 = (case app_configurator fw of
                             Some c \<Rightarrow> (if ENABLE_JSON_LOGGING s1
                                         then s1\<lparr>configured := configured s1 @ [c]\<rparr> else s1)
                           | None \<Rightarrow> s1)
                 in (Inr JSONLogWebFormatter, s2)))
      else case custom_formatter of
        Some c \<Rightarrow>
          (if \<not> issubclass c ''logging.Formatter''
           then (Inl (ValueError ''custom_formatter is not subclass of logging.Formatter''), s)
           else (Inr c, s))
      | None \<Rightarrow> (Inr JSONLogFormatter, s))"

definition init ::
  "string option \<Rightarrow> pyclass option \<Rightarrow> module_state \<Rightarrow> (error + unit) \<times> module_state" where
  "init framework_name custom_formatter s =
     (if current_framework s \<noteq> None
      then (Inl (RuntimeError ''Can not call init more than once''), s)
      else
        (let s1 = log_to INFO (''init framework '' @ str_of_name framework_name) s
         in case init_select framework_name custom_formatter s1 of
              (Inl e, s2) \<Rightarrow> (Inl e, s2)
            | (Inr formatter, s2) \<Rightarrow>
                (let s3 = (if \<not> ENABLE_JSON_LOGGING s2
                           then log_to WARNING
                             (''JSON format is not enable! '' @
                              ''To enable set ENABLE_JSON_LOGGING env var to either one of following values: '' @
                              ''['' @ [CHR 0x27] @ ''true'' @ [CHR 0x27] @ '', '' @ [CHR 0x27] @ ''1'' @ [CHR 0x27] @
                              '', '' @ [CHR 0x27] @ ''y'' @ [CHR 0x27] @ '', '' @ [CHR 0x27] @ ''yes'' @ [CHR 0x27] @ '']'') s2
                           else s2\<lparr>defaultFormatter := Some formatter\<rparr>);
                     s4 = log_to DEBUG ''Update all existing logger to using JSONLogFormatter'' s3
                 in (Inr (), s4\<lparr>loggers_formatter := Some formatter\<rparr>))))"

section \<open>The correlation-id policy\<close>

text \<open>
  Modelled from the spec: \<open>RequestUtil.get_correlation_id(request)\<close>, of
  \<open>json_logging/util.py\<close>, which is not among the sources. Section 4.1: search a configured
  ordered list of header names on the request and return the first present, non-empty
  value; if none is found and creation is enabled, mint a new identifier with the generator
  and store it back on the request; if creation is disabled and none is found, return the
  empty-value sentinel. The request is read and written through the Django adapter above;
  \<open>minted\<close> is the identifier that the generator returns when it is called.
\<close>

fun search_headers :: "HttpRequest \<Rightarrow> string list \<Rightarrow> pyval option" where
  "search_headers req [] = None"
| "search_headers req (h # hs) =
     (let v = get_http_header req h PNone
      in if truthy v then Some v else search_headers req hs)"

definition resolve :: "string list \<Rightarrow> bool \<Rightarrow> pyval \<Rightarrow> HttpRequest \<Rightarrow> pyval \<times> HttpRequest" where
  "resolve header_names create_if_not_exists minted req =
     (case search_headers req header_names of
        Some v \<Rightarrow> (v, req)
      | None \<Rightarrow>
          (if create_if_not_exists then (minted, set_correlation_id req minted)
           else (PStr EMPTY_VALUE, req)))"

definition CREATE_CORRELATION_ID_IF_NOT_EXISTS :: bool where
  "CREATE_CORRELATION_ID_IF_NOT_EXISTS = True"

section \<open>Instances for evaluating the model on concrete inputs\<close>

text \<open>
  Modelled from the spec: the helpers \<open>iso_time_format\<close>, \<open>epoch_nano_second\<close> and
  \<open>parse_int\<close> of \<open>json_logging/util.py\<close>, which is not among the sources. Section 4.5:
  \<open>written_at\<close> is the ISO-8601 UTC rendering of the time, \<open>written_ts\<close> its nanosecond
  epoch, and the request size is parsed to an integer, with the fallback when it cannot be
  parsed.
\<close>

definition digit_char :: "int \<Rightarrow> char" where
  "digit_char d = ''0123456789'' ! nat d"

fun zero_padded :: "nat \<Rightarrow> int \<Rightarrow> string" where
  "zero_padded 0 n = []"
| "zero_padded (Suc w) n = zero_padded w (n div 10) @ [digit_char (n mod 10)]"

text \<open>Year, month and day of a day number counted from 1970-01-01 (Gregorian calendar).\<close>

definition civil_from_days :: "int \<Rightarrow> int \<times> int \<times> int" where
  "civil_from_days days =
     (let z = days + 719468;
          era = z div 146097;
          doe = z mod 146097;
          yoe = (doe - doe div 1460 + doe div 36524 - doe div 146096) div 365;
          doy = doe - (365 * yoe + yoe div 4 - yoe div 100);
          mp = (5 * doy + 2) div 153;
          d = doy - (153 * mp + 2) div 5 + 1;
          m = (if mp < 10 then mp + 3 else mp - 9);
          y = yoe + era * 400 + (if m \<le> 2 then 1 else 0)
      in (y, m, d))"

definition iso_time_format_model :: "datetime \<Rightarrow> string" where
  "iso_time_format_model t =
     (let (y, m, d) = civil_from_days (t div 86400000000);
          r = t mod 86400000000
      in zero_padded 4 y @ ''-'' @ zero_padded 2 m @ ''-'' @ zero_padded 2 d @ ''T'' @
         zero_padded 2 (r div 3600000000) @ '':'' @
         zero_padded 2 (r div 60000000 mod 60) @ '':'' @
         zero_padded 2 (r div 1000000 mod 60) @ ''.'' @
         zero_padded 3 (r mod 1000000 div 1000) @ ''Z'')"

definition epoch_nano_second_model :: "datetime \<Rightarrow> int" where
  "epoch_nano_second_model t = t * 1000"

fun decimal_value :: "int \<Rightarrow> string \<Rightarrow> int option" where
  "decimal_value acc [] = Some acc"
| "decimal_value acc (c # cs) =
     (case map_of (zip ''0123456789'' [0, 1, 2, 3, 4, 5, 6, 7, 8, 9]) c of
        Some d \<Rightarrow> decimal_value (acc * 10 + d) cs
      | None \<Rightarrow> None)"

definition parse_int_model :: "pyval \<Rightarrow> int \<Rightarrow> int" where
  "parse_int_model v dflt =
     (case v of
        PInt i \<Rightarrow> i
      | PNone \<Rightarrow> dflt
      | PStr s \<Rightarrow>
          (if s = [] then dflt
           else case decimal_value 0 s of Some n \<Rightarrow> n | None \<Rightarrow> dflt))"

definition util_model :: util where
  "util_model = \<lparr>iso_time_format = iso_time_format_model,
                  epoch_nano_second = epoch_nano_second_model,
                  parse_int = parse_int_model\<rparr>"

text \<open>
  A facade built on the correlation-id policy above with the module's default settings.
  The Django adapter has no ambient request (\<open>support_global_request_object\<close> is
  \<open>False\<close>), and the spec (section 4.7) makes the call without a request a usage error
  then.
\<close>

definition RequestUtil_model :: "pyval \<Rightarrow> RequestUtil" where
  "RequestUtil_model minted =
     \<lparr>get_correlation_id =
        (\<lambda>req. let (v, req') = resolve CORRELATION_ID_HEADERS CREATE_CORRELATION_ID_IF_NOT_EXISTS minted req
               in (Inr v, req')),
      get_correlation_id_no_request =
        Inl (RuntimeError ''get_correlation_id needs a request'')\<rparr>"

text \<open>The classes that the module registers for Django, and the state when it is loaded.\<close>

definition DjangoRequestAdapter :: pyclass where
  "DjangoRequestAdapter = \<lparr>class_name = ''DjangoRequestAdapter'', class_bases = [''RequestAdapter'']\<rparr>"

definition DjangoResponseAdapter :: pyclass where
  "DjangoResponseAdapter = \<lparr>class_name = ''DjangoResponseAdapter'', class_bases = [''ResponseAdapter'']\<rparr>"

definition DjangoAppRequestInstrumentationConfigurator :: pyclass where
  "DjangoAppRequestInstrumentationConfigurator =
     \<lparr>class_name = ''DjangoAppRequestInstrumentationConfigurator'',
      class_bases = [''AppRequestInstrumentationConfigurator'']\<rparr>"

text \<open>A subclass of the Django request adapter, as a test would register it.\<close>

definition TestRequestAdapter :: pyclass where
  "TestRequestAdapter = \<lparr>class_name = ''TestRequestAdapter'',
     class_bases = [''DjangoRequestAdapter'', ''RequestAdapter'']\<rparr>"

definition module_state0 :: "bool \<Rightarrow> module_state" where
  "module_state0 enable =
     \<lparr>ENABLE_JSON_LOGGING = enable, framework_support_map = Map.empty,
      current_framework = None, request_util = None, logged = [], configured = [],
      defaultFormatter = None, loggers_formatter = None\<rparr>"

definition django_registered :: "bool \<Rightarrow> module_state" where
  "django_registered enable =
     snd (register_framework_support ''django'' None DjangoAppRequestInstrumentationConfigurator
            DjangoRequestAdapter DjangoResponseAdapter (module_state0 enable))"

text \<open>A request, a response and a log record for the closed examples.\<close>

definition example_request :: HttpRequest where
  "example_request =
     \<lparr>META = [''HTTP_X_REQUEST_ID'' \<mapsto> PStr ''req-42'', ''CONTENT_LENGTH'' \<mapsto> PStr ''512''],
      path = ''/items'', request_method = ''GET'', user = None\<rparr>"

definition example_response :: HttpResponse where
  "example_response =
     \<lparr>status_code = 200,
      headers = [''Content-Type'' \<mapsto> PStr ''application/json''],
      tell = Some 1234\<rparr>"

definition not_modified_response :: HttpResponse where
  "not_modified_response = \<lparr>status_code = 304, headers = Map.empty, tell = Some 0\<rparr>"

text \<open>
  \<open>JSON_SERIALIZER\<close> is a setting of the module that an application may replace; the
  closed examples use this one, which writes the keys of the object in order.
\<close>

definition example_serializer :: "json_object \<Rightarrow> string" where
  "example_serializer obj = concat (map (\<lambda>(k, v). k @ '';'') obj)"

definition example_record :: LogRecord where
  "example_record =
     \<lparr>name = ''app'', threadName = ''MainThread'', levelname = ''INFO'', lineno = 7,
      module = ''views'', filename = ''views.py'', message = ''hello'',
      props = Some [(''level'', PStr ''AUDIT''), (''tenant'', PStr ''t1'')],
      exc_info = None, exc_text = None\<rparr>"

section \<open>Truncating a binary64 quotient\<close>

text \<open>
  The integer part of the rounded quotient is the integer quotient as long as the rounding
  error stays below the distance \<open>1 / b\<close> between the exact quotient and the next integer:
  for \<open>a / b < 2^n\<close> the spacing of binary64 numbers is at most \<open>2^(n - 53)\<close>.
\<close>

lemma bit_length_nonneg: "0 \<le> bit_length a"
  by (induction a rule: bit_length.induct) (simp add: bit_length.simps)

lemma bit_length_upper: "a < 2 ^ nat (bit_length a)"
proof (induction a rule: bit_length.induct)
  case (1 n)
  show ?case
  proof (cases "n \<le> 0")
    case True
    then show ?thesis by (simp add: bit_length.simps)
  next
    case False
    then have ih: "n div 2 < 2 ^ nat (bit_length (n div 2))" using 1 by simp
    have bl: "bit_length n = 1 + bit_length (n div 2)" using False by (simp add: bit_length.simps)
    have "nat (bit_length n) = Suc (nat (bit_length (n div 2)))"
      using bl bit_length_nonneg [of "n div 2"] by simp
    then show ?thesis using ih by simp
  qed
qed

lemma bit_length_le: "a < 2 ^ k \<Longrightarrow> bit_length a \<le> int k"
proof (induction k arbitrary: a)
  case 0
  then show ?case by (simp add: bit_length.simps)
next
  case (Suc k)
  show ?case
  proof (cases "a \<le> 0")
    case True
    then show ?thesis by (simp add: bit_length.simps)
  next
    case False
    have "a div 2 < 2 ^ k" using Suc.prems by simp
    then have "bit_length (a div 2) \<le> int k" by (rule Suc.IH)
    then show ?thesis using False by (simp add: bit_length.simps)
  qed
qed

lemma quotient_exponent_less:
  assumes "0 < a" "0 < b" "a < b * 2 ^ n"
  shows "quotient_exponent a b < int n"
proof -
  define d where "d = bit_length a - bit_length b"
  have "b < 2 ^ nat (bit_length b)" by (rule bit_length_upper)
  then have "b * 2 ^ n < 2 ^ nat (bit_length b) * 2 ^ n" by simp
  with assms(3) have "a < 2 ^ nat (bit_length b) * 2 ^ n" by (rule less_trans)
  then have "a < 2 ^ (nat (bit_length b) + n)" by (simp add: power_add)
  then have "bit_length a \<le> int (nat (bit_length b) + n)" by (rule bit_length_le)
  then have dn: "d \<le> int n" using bit_length_nonneg [of b] by (simp add: d_def)
  show ?thesis
  proof (cases "scaled_le b d a")
    case False
    then show ?thesis using dn by (simp add: quotient_exponent_def d_def Let_def)
  next
    case True
    have "d < int n"
    proof (cases "0 \<le> d")
      case False
      then show ?thesis by simp
    next
      case nonneg: True
      then have "b * 2 ^ nat d \<le> a" using True by (simp add: scaled_le_def)
      then have "b * 2 ^ nat d < b * 2 ^ n" using assms(3) by simp
      then have "(2::int) ^ nat d < 2 ^ n" using assms(2) by simp
      then have "nat d < n" by simp
      then show ?thesis using nonneg by simp
    qed
    then show ?thesis using True by (simp add: quotient_exponent_def d_def Let_def)
  qed
qed



lemma le_div_int: "0 < d \<Longrightarrow> j * d \<le> n \<Longrightarrow> j \<le> n div (d::int)"
proof -
  assume d: "0 < d" and le: "j * d \<le> n"
  have "(j * d) div d \<le> n div d" using le d by (rule zdiv_mono1)
  then show ?thesis using d by simp
qed

lemma div_mult_le_int: "0 < p \<Longrightarrow> (m div p) * p \<le> (m::int)"
proof -
  assume p: "0 < p"
  have "m div p * p + m mod p = m" by simp
  moreover have "0 \<le> m mod p" using p by simp
  ultimately show ?thesis by linarith
qed

lemma less_div_mult_int: "0 < p \<Longrightarrow> (m::int) < (m div p + 1) * p"
proof -
  assume p: "0 < p"
  have "m div p * p + m mod p = m" by simp
  moreover have "m mod p < p" using p by simp
  moreover have "(m div p + 1) * p = m div p * p + p" by (simp add: algebra_simps)
  ultimately show ?thesis by linarith
qed

lemma div_int_eqI: "(k::int) * p \<le> m \<Longrightarrow> m < (k + 1) * p \<Longrightarrow> 0 < p \<Longrightarrow> m div p = k"
proof -
  assume lo: "k * p \<le> m" and hi: "m < (k + 1) * p" and p: "0 < p"
  have "k \<le> m div p" using p lo by (rule le_div_int)
  moreover have "m div p < k + 1"
  proof (rule ccontr)
    assume "\<not> m div p < k + 1"
    then have "k + 1 \<le> m div p" by simp
    then have "(k + 1) * p \<le> (m div p) * p" using p by simp
    also have "\<dots> \<le> m" using p by (rule div_mult_le_int)
    finally show False using hi by simp
  qed
  ultimately show ?thesis by simp
qed

lemma ms_split: "(N div 1000000) * 1000 + (N mod 1000000) div 1000 = N div (1000::int)"
proof -
  have "N div 1000 = (N div 1000000 * 1000000 + N mod 1000000) div 1000" by simp
  also have "\<dots> = (N div 1000000 * 1000 * 1000 + N mod 1000000) div 1000" by simp
  also have "\<dots> = N div 1000000 * 1000 + (N mod 1000000) div 1000"
    by (simp only: div_mult_self3 [of 1000 "N div 1000000 * 1000" "N mod 1000000"] )
  finally show ?thesis by simp
qed

lemma round_half_even_lower:
  assumes "0 < d" "j * d \<le> n"
  shows "j \<le> round_half_even n d"
proof -
  have "j \<le> n div d" using assms by (rule le_div_int)
  then show ?thesis by (simp add: round_half_even_def Let_def)
qed

lemma round_half_even_upper:
  assumes "0 < d" "2 * n + d < 2 * j * d"
  shows "round_half_even n d < j"
proof -
  define q where "q = n div d"
  define r where "r = n mod d"
  have n: "n = q * d + r" by (simp add: q_def r_def)
  have hyp: "2 * n + d < 2 * (j * d)" using assms(2) by simp
  have r: "0 \<le> r" "r < d" using assms(1) by (simp_all add: r_def)
  have q_less: "q < j"
  proof (rule ccontr)
    assume "\<not> q < j"
    then have "j \<le> q" by simp
    then have "j * d \<le> q * d" using assms(1) by simp
    then show False using hyp n r assms(1) by linarith
  qed
  have up: "q + 1 < j" if "d \<le> 2 * r"
  proof (rule ccontr)
    assume "\<not> q + 1 < j"
    then have "j \<le> q + 1" by simp
    then have "j * d \<le> (q + 1) * d" using assms(1) by simp
    moreover have "(q + 1) * d = q * d + d" by (simp add: algebra_simps)
    ultimately show False using hyp n that by linarith
  qed
  show ?thesis
    using q_less up by (auto simp add: round_half_even_def Let_def q_def [symmetric] r_def [symmetric])
qed

lemma int_of_float_truediv:
  assumes a: "0 \<le> a" and b: "0 < b" and bound: "a < b * 2 ^ n" and small: "b < 2 ^ (54 - n)"
    and n: "n \<le> 53"
  shows "int_of_float (truediv a b) = a div b"
proof (cases "a = 0")
  case True
  then show ?thesis by (simp add: truediv_def int_of_float_def)
next
  case False
  then have pos: "0 < a" using a by simp
  define s where "s = 52 - quotient_exponent a b"
  define k where "k = a div b"
  define m where "m = round_half_even (a * 2 ^ nat s) b"
  have "quotient_exponent a b < int n" using pos b bound by (rule quotient_exponent_less)
  then have s_ge: "int (53 - n) \<le> s" using n by (simp add: s_def)
  then have s0: "0 \<le> s" by simp
  have td: "truediv a b = (m, - s)"
    using pos s0 by (simp add: truediv_def truediv_pos_def Let_def s_def m_def)
  have kb: "k * b \<le> a" unfolding k_def using b by (rule div_mult_le_int)
  have ab: "a < (k + 1) * b" unfolding k_def using b by (rule less_div_mult_int)
  have lower: "k * 2 ^ nat s \<le> m"
  proof -
    have "(k * 2 ^ nat s) * b \<le> a * 2 ^ nat s" using kb by (simp add: algebra_simps)
    with b show ?thesis unfolding m_def by (rule round_half_even_lower)
  qed
  have pw: "b < 2 * 2 ^ nat s"
  proof -
    have "54 - n \<le> Suc (nat s)" using s_ge by simp
    then have "(2::int) ^ (54 - n) \<le> 2 ^ Suc (nat s)" by (rule power_increasing) simp
    then show ?thesis using small by simp
  qed
  have upper: "m < (k + 1) * 2 ^ nat s"
  proof -
    have "a + 1 \<le> (k + 1) * b" using ab by simp
    then have "(a + 1) * 2 ^ nat s \<le> (k + 1) * b * 2 ^ nat s" by simp
    then have "2 * (a * 2 ^ nat s) + b < 2 * ((k + 1) * 2 ^ nat s) * b"
      using pw by (simp add: algebra_simps)
    with b show ?thesis unfolding m_def by (rule round_half_even_upper)
  qed
  have "0 \<le> k" using a b by (simp add: k_def pos_imp_zdiv_nonneg_iff)
  then have "0 \<le> k * 2 ^ nat s" by simp
  then have m0: "0 \<le> m" using lower by simp
  have "m div 2 ^ nat s = k" using lower upper by (rule div_int_eqI) simp
  then show ?thesis
  proof (cases "s = 0")
    case True
    then show ?thesis using td m0 \<open>m div 2 ^ nat s = k\<close> by (simp add: int_of_float_def k_def)
  next
    case False
    then have "\<not> 0 \<le> - s" using s0 by simp
    then show ?thesis using td m0 \<open>m div 2 ^ nat s = k\<close> s0
      by (simp add: int_of_float_def k_def)
  qed
qed


lemma response_time_exact:
  assumes "0 \<le> td" "td < 2 ^ 34 * 1000000"
  shows "int_of_float (total_seconds td) * 1000 + int_of_float (truediv (microseconds td) 1000)
         = td div 1000"
proof -
  have "td < 1000000 * 2 ^ 34" using assms(2) by simp
  then have secs: "int_of_float (truediv td 1000000) = td div 1000000"
    using assms(1) by (intro int_of_float_truediv [where n = 34]) simp_all
  have "td mod 1000000 < 1000 * 2 ^ 10"
  proof -
    have "td mod 1000000 < 1000000" by simp
    then show ?thesis by simp
  qed
  moreover have "0 \<le> td mod 1000000" by simp
  ultimately have ms: "int_of_float (truediv (td mod 1000000) 1000) = td mod 1000000 div 1000"
    by (intro int_of_float_truediv [where n = 10]) simp_all
  show ?thesis
    unfolding total_seconds_def microseconds_def secs ms by (rule ms_split)
qed

section \<open>Properties of the Django adapters\<close>

lemma converted_correlation_header:
  "replace CHR ''-'' CHR ''_'' (upper ''X-Correlation-ID'') = ''X_CORRELATION_ID''"
  by (simp add: upper_def translate_char_def replace_def)

text \<open>
  C10: after \<open>set_correlation_id(r, v)\<close>, both \<open>get_correlation_id_in_request_context(r)\<close>
  and \<open>get_http_header(r, 'X-Correlation-ID')\<close> return \<open>v\<close>: the stored id is found again
  under the META key that the header-name conversion computes.
\<close>

theorem set_correlation_id_roundtrip:
  "get_correlation_id_in_request_context (set_correlation_id r v) = v \<and>
   get_http_header (set_correlation_id r v) ''X-Correlation-ID'' (PStr EMPTY_VALUE) = v"
  by (simp add: get_correlation_id_in_request_context_def meta_get_def set_correlation_id_def
      get_http_header_def converted_correlation_header)

section \<open>Finalizing a \<open>RequestInfo\<close> and the access log\<close>

lemma update_response_status_ok:
  assumes "get_content_type response = Inr ct"
  shows "update_response_status u (Some ru) utcnow response self =
     (Inr (), self\<lparr>response_time_ms :=
                 Some (int_of_float (total_seconds (utcnow - request_start self)) * 1000
                       + int_of_float (truediv (microseconds (utcnow - request_start self)) 1000)),
               response_status := Some (get_status_code response),
               response_size_b := Some (get_response_size response),
               response_content_type := Some ct,
               response_sent_at := Some (iso_time_format u utcnow)\<rparr>)"
  using assms by (simp add: update_response_status_def Let_def)

lemma fifty_ms: "int_of_float (total_seconds 50000) * 1000 + int_of_float (truediv (microseconds 50000) 1000) = 50"
  using response_time_exact [of 50000] by simp

lemma response_time_ms_update:
  "response_time_ms (snd (update_response_status u (Some ru) utcnow response self)) =
     Some (int_of_float (total_seconds (utcnow - request_start self)) * 1000
           + int_of_float (truediv (microseconds (utcnow - request_start self)) 1000))"
  by (simp add: update_response_status_def Let_def split: sum.splits)

text \<open>
  C3, as amended: for completion at or after arrival and less than \<open>2^34\<close> seconds (about
  544 years) after it, \<open>response_time_ms\<close> is the elapsed time in microseconds divided by
  1000, rounded down: the whole seconds and the millisecond remainder add up without
  counting anything twice.
\<close>

theorem response_time_ms_truncates:
  assumes "request_start self \<le> utcnow"
    and "utcnow - request_start self < 2 ^ 34 * 1000000"
  shows "response_time_ms (snd (update_response_status u (Some ru) utcnow response self)) =
           Some ((utcnow - request_start self) div 1000)"
proof -
  have "0 \<le> utcnow - request_start self" using assms(1) by simp
  then show ?thesis
    using assms(2) by (simp only: response_time_ms_update response_time_exact)
qed

theorem response_time_ms_truncates_witness:
  "request_start (RequestInfo_init util_model 1000000 example_request) \<le> 3500999 \<and>
   response_time_ms (snd (update_response_status util_model (Some (RequestUtil_model PNone)) 3500999
       example_response (RequestInfo_init util_model 1000000 example_request))) = Some 2500"
  using response_time_ms_truncates [of "RequestInfo_init util_model 1000000 example_request" 3500999
      util_model "RequestUtil_model PNone" example_response]
  by (simp add: RequestInfo_init_def)

text \<open>
  C3 as stated fails for a completion \<open>2^34\<close> seconds and 999999 microseconds after arrival:
  \<open>total_seconds()\<close> is the binary64 number nearest to 17179869184.999999, which is
  17179869185.0, so the last second is counted as a whole second and again as 999
  milliseconds; the result is 1000 more than the elapsed milliseconds.
\<close>

theorem response_time_ms_double_counts:
  "response_time_ms (snd (update_response_status util_model (Some (RequestUtil_model PNone))
       17179869184999999 example_response (RequestInfo_init util_model 0 example_request)))
     = Some 17179869185999 \<and>
   (17179869184999999 - request_start (RequestInfo_init util_model 0 example_request)) div 1000
     = 17179869184999"
proof -
  have a: "int_of_float (total_seconds 17179869184999999) = 17179869185" by code_simp
  have b: "int_of_float (truediv (microseconds 17179869184999999) 1000) = 999" by code_simp
  show ?thesis
    by (simp add: response_time_ms_update RequestInfo_init_def a b)
qed

lemma example_status: "get_status_code example_response = PInt 200"
  by (simp add: get_status_code_def example_response_def)
lemma example_size: "get_response_size example_response = PInt 1234"
  by (simp add: get_response_size_def example_response_def)
lemma example_ctype: "get_content_type example_response = Inr (PStr ''application/json'')"
  by (simp add: get_content_type_def example_response_def)

lemma converted_request_id_header:
  "replace CHR ''-'' CHR ''_'' (upper ''X-Request-ID'') = ''X_REQUEST_ID''"
  by (simp add: upper_def translate_char_def replace_def)

lemma example_resolve:
  "resolve CORRELATION_ID_HEADERS c m example_request = (PStr ''req-42'', example_request)"
  by (simp add: resolve_def CORRELATION_ID_HEADERS_def get_http_header_def
      converted_correlation_header converted_request_id_header example_request_def)

lemma example_cid: "fst (get_correlation_id (RequestUtil_model m) example_request) = Inr (PStr ''req-42'')"
  by (simp add: RequestUtil_model_def example_resolve)

text \<open>
  C2: a \<open>RequestInfo\<close> created at time \<open>T\<close> and finalized at \<open>T + 50 ms\<close> with a response
  for which the adapter reports status 200, size 1234 and content type
  \<open>application/json\<close> is formatted by the access-log formatter into a JSON object with
  \<open>response_status = 200\<close>, \<open>response_size_b = 1234\<close>,
  \<open>response_content_type = "application/json"\<close> and \<open>response_time_ms = 50\<close>.
\<close>

theorem access_log_roundtrip:
  assumes status: "get_status_code response = PInt 200"
    and size: "get_response_size response = PInt 1234"
    and ctype: "get_content_type response = Inr (PStr ''application/json'')"
    and cid: "fst (get_correlation_id ru req) = Inr cid"
  shows "\<exists>info obj.
      update_response_status u (Some ru) (T + 50000) response (RequestInfo_init u T req) = (Inr (), info) \<and>
      JSONRequestLogFormatter_json_log_object u (Some ru) now info = Inr obj \<and>
      JSONRequestLogFormatter_format serializer u (Some ru) now info = Inr (serializer obj) \<and>
      map_of obj ''response_status'' = Some (PInt 200) \<and>
      map_of obj ''response_size_b'' = Some (PInt 1234) \<and>
      map_of obj ''response_content_type'' = Some (PStr ''application/json'') \<and>
      map_of obj ''response_time_ms'' = Some (PInt 50)"
proof -
  define info where "info = snd (update_response_status u (Some ru) (T + 50000) response (RequestInfo_init u T req))"
  have upd: "update_response_status u (Some ru) (T + 50000) response (RequestInfo_init u T req) = (Inr (), info)"
    unfolding info_def by (simp add: update_response_status_ok [OF ctype])
  have fields: "response_time_ms info = Some 50" "response_status info = Some (PInt 200)"
    "response_size_b info = Some (PInt 1234)"
    "response_content_type info = Some (PStr ''application/json'')"
    "response_sent_at info = Some (iso_time_format u (T + 50000))"
    "request info = req"
    unfolding info_def
    by (simp_all add: update_response_status_ok [OF ctype] status size RequestInfo_init_def fifty_ms)
  obtain req' where r: "get_correlation_id ru req = (Inr cid, req')"
    using cid by (cases "get_correlation_id ru req") simp
  define obj where "obj = (case JSONRequestLogFormatter_json_log_object u (Some ru) now info of Inr x \<Rightarrow> x | Inl _ \<Rightarrow> [])"
  have o: "JSONRequestLogFormatter_json_log_object u (Some ru) now info = Inr obj"
    unfolding obj_def by (simp add: JSONRequestLogFormatter_json_log_object_def fields r getattr_def Let_def)
  have vals: "map_of obj ''response_status'' = Some (PInt 200)"
      "map_of obj ''response_size_b'' = Some (PInt 1234)"
      "map_of obj ''response_content_type'' = Some (PStr ''application/json'')"
      "map_of obj ''response_time_ms'' = Some (PInt 50)"
    unfolding obj_def by (simp_all add: JSONRequestLogFormatter_json_log_object_def fields r getattr_def Let_def)
  have f: "JSONRequestLogFormatter_format serializer u (Some ru) now info = Inr (serializer obj)"
    by (simp add: JSONRequestLogFormatter_format_def o)
  show ?thesis using upd o f vals by blast
qed

theorem access_log_roundtrip_witness:
  "\<exists>info obj.
      update_response_status util_model (Some (RequestUtil_model PNone)) (1000000 + 50000) example_response
         (RequestInfo_init util_model 1000000 example_request) = (Inr (), info) \<and>
      JSONRequestLogFormatter_json_log_object util_model (Some (RequestUtil_model PNone)) 1060000 info = Inr obj \<and>
      JSONRequestLogFormatter_format example_serializer util_model (Some (RequestUtil_model PNone)) 1060000 info = Inr (example_serializer obj) \<and>
      map_of obj ''response_status'' = Some (PInt 200) \<and>
      map_of obj ''response_size_b'' = Some (PInt 1234) \<and>
      map_of obj ''response_content_type'' = Some (PStr ''application/json'') \<and>
      map_of obj ''response_time_ms'' = Some (PInt 50)"
  by (rule access_log_roundtrip [OF example_status example_size example_ctype example_cid])

text \<open>
  C5 (\<open>get_content_type\<close> returns the sentinel when the response carries no content
  type) does not hold of the code: on a response without a \<open>Content-Type\<close> header, such
  as Django's 304 response, \<open>get_content_type\<close> raises \<open>KeyError\<close>.
\<close>

theorem get_content_type_raises_without_header:
  "get_content_type not_modified_response = Inl (KeyError ''Content-Type'')"
  by (simp add: get_content_type_def not_modified_response_def)

lemma get_content_type_missing:
  "headers response ''Content-Type'' = None \<Longrightarrow>
   get_content_type response = Inl (KeyError ''Content-Type'')"
  by (simp add: get_content_type_def)

lemma get_response_size_sentinel:
  "headers response ''Content-Length'' = None \<Longrightarrow> tell response = None \<Longrightarrow>
   get_response_size response = PStr EMPTY_VALUE"
  by (simp add: get_response_size_def)

section \<open>Properties of the registry and of \<open>init\<close>\<close>

lemma lower_django: "lower ''django'' = ''django''"
  by (simp add: lower_def translate_char_def)

lemma django_registered_map:
  "framework_support_map (django_registered e) ''django'' =
     Some \<lparr>app_configurator = None,
           app_request_instrumentation_configurator = DjangoAppRequestInstrumentationConfigurator,
           request_adapter_class = DjangoRequestAdapter,
           response_adapter_class = DjangoResponseAdapter\<rparr>"
  by (simp add: django_registered_def register_framework_support_def validate_subclass_def
      issubclass_def DjangoRequestAdapter_def DjangoResponseAdapter_def
      DjangoAppRequestInstrumentationConfigurator_def module_state0_def lower_django Let_def)

lemma init_django:
  "current_framework (snd (init (Some ''django'') None (django_registered e))) =
     Some \<lparr>app_configurator = None,
           app_request_instrumentation_configurator = DjangoAppRequestInstrumentationConfigurator,
           request_adapter_class = DjangoRequestAdapter,
           response_adapter_class = DjangoResponseAdapter\<rparr>"
  by (simp add: init_def init_select_def str_of_name_def lower_django log_to_def
      django_registered_map Let_def)
     (simp add: django_registered_def register_framework_support_def validate_subclass_def
      issubclass_def DjangoRequestAdapter_def DjangoResponseAdapter_def
      DjangoAppRequestInstrumentationConfigurator_def module_state0_def lower_django Let_def)

text \<open>
  C8: in a state where the active framework is set, every call of \<open>init\<close> fails with a
  \<open>RuntimeError\<close> and leaves the state, and with it the active framework, as it was.
\<close>

theorem init_twice_fails:
  assumes "current_framework s = Some fw"
  shows "init framework_name custom_formatter s =
           (Inl (RuntimeError ''Can not call init more than once''), s) \<and>
         current_framework (snd (init framework_name custom_formatter s)) = Some fw"
  using assms by (simp add: init_def)

theorem init_twice_fails_witness:
  "init (Some ''django'') None (snd (init (Some ''django'') None (django_registered True))) =
     (Inl (RuntimeError ''Can not call init more than once''),
      snd (init (Some ''django'') None (django_registered True))) \<and>
   current_framework (snd (init (Some ''django'') None
       (snd (init (Some ''django'') None (django_registered True))))) =
     Some \<lparr>app_configurator = None,
           app_request_instrumentation_configurator = DjangoAppRequestInstrumentationConfigurator,
           request_adapter_class = DjangoRequestAdapter,
           response_adapter_class = DjangoResponseAdapter\<rparr>"
  by (rule init_twice_fails [OF init_django])

lemma register_framework_support_ok:
  assumes "framework_name \<noteq> []"
    and "issubclass request_adapter ''RequestAdapter''"
    and "issubclass response_adapter ''ResponseAdapter''"
    and "issubclass instrumentation_conf ''AppRequestInstrumentationConfigurator''"
    and "case app_conf of None \<Rightarrow> True | Some c \<Rightarrow> issubclass c ''FrameworkConfigurator''"
  shows "register_framework_support framework_name app_conf instrumentation_conf request_adapter
           response_adapter s =
         (Inr (),
          s\<lparr>logged := (if framework_support_map s (lower framework_name) \<noteq> None
                        then logged s @ [(WARNING, ''Re-register framework '' @ lower framework_name)]
                        else logged s),
            framework_support_map := (framework_support_map s)(lower framework_name \<mapsto>
              \<lparr>app_configurator = app_conf,
               app_request_instrumentation_configurator = instrumentation_conf,
               request_adapter_class = request_adapter,
               response_adapter_class = response_adapter\<rparr>)\<rparr>)"
  using assms
  by (cases app_conf) (simp_all add: register_framework_support_def validate_subclass_def Let_def log_to_def)

lemma register_framework_support_registers:
  assumes "register_framework_support framework_name app_conf instrumentation_conf request_adapter
             response_adapter s = (Inr (), s')"
  shows "framework_name \<noteq> [] \<and> framework_support_map s' (lower framework_name) \<noteq> None"
  using assms
  by (auto simp add: register_framework_support_def validate_subclass_def Let_def log_to_def
      split: if_splits sum.splits option.splits)

lemma django_first:
  "register_framework_support ''Django'' None DjangoAppRequestInstrumentationConfigurator
     DjangoRequestAdapter DjangoResponseAdapter (module_state0 True) =
   (Inr (), snd (register_framework_support ''Django'' None DjangoAppRequestInstrumentationConfigurator
     DjangoRequestAdapter DjangoResponseAdapter (module_state0 True)))"
  by (simp add: register_framework_support_ok issubclass_def DjangoRequestAdapter_def
      DjangoResponseAdapter_def DjangoAppRequestInstrumentationConfigurator_def)

lemma lower_Django: "lower ''Django'' = ''django''"
  by (simp add: lower_def translate_char_def)

text \<open>
  C9: when a framework name has been registered, registering it a second time with valid
  adapter and configurator types does not fail, logs the warning
  \<open>Re-register framework <name>\<close>, and the next lookup of the (lower-cased) name finds
  the types of the second registration.
\<close>

theorem reregistration_overwrites:
  assumes first: "register_framework_support framework_name app_conf1 instrumentation_conf1
                    request_adapter1 response_adapter1 s = (Inr (), s1)"
    and "issubclass request_adapter2 ''RequestAdapter''"
    and "issubclass response_adapter2 ''ResponseAdapter''"
    and "issubclass instrumentation_conf2 ''AppRequestInstrumentationConfigurator''"
    and "case app_conf2 of None \<Rightarrow> True | Some c \<Rightarrow> issubclass c ''FrameworkConfigurator''"
  shows "\<exists>s2. register_framework_support framework_name app_conf2 instrumentation_conf2
                 request_adapter2 response_adapter2 s1 = (Inr (), s2) \<and>
              logged s2 = logged s1 @ [(WARNING, ''Re-register framework '' @ lower framework_name)] \<and>
              framework_support_map s2 (lower framework_name) =
                Some \<lparr>app_configurator = app_conf2,
                      app_request_instrumentation_configurator = instrumentation_conf2,
                      request_adapter_class = request_adapter2,
                      response_adapter_class = response_adapter2\<rparr>"
proof -
  from register_framework_support_registers [OF first]
  have ne: "framework_name \<noteq> []" and present: "framework_support_map s1 (lower framework_name) \<noteq> None"
    by simp_all
  show ?thesis
    using present by (simp add: register_framework_support_ok [OF ne assms(2-5)])
qed

theorem reregistration_overwrites_witness:
  "\<exists>s2. register_framework_support ''Django'' None DjangoAppRequestInstrumentationConfigurator
           TestRequestAdapter DjangoResponseAdapter
           (snd (register_framework_support ''Django'' None DjangoAppRequestInstrumentationConfigurator
              DjangoRequestAdapter DjangoResponseAdapter (module_state0 True))) = (Inr (), s2) \<and>
        logged s2 = logged (snd (register_framework_support ''Django'' None
              DjangoAppRequestInstrumentationConfigurator
              DjangoRequestAdapter DjangoResponseAdapter (module_state0 True)))
            @ [(WARNING, ''Re-register framework django'')] \<and>
        framework_support_map s2 ''django'' =
          Some \<lparr>app_configurator = None,
                app_request_instrumentation_configurator = DjangoAppRequestInstrumentationConfigurator,
                request_adapter_class = TestRequestAdapter,
                response_adapter_class = DjangoResponseAdapter\<rparr>"
  using reregistration_overwrites [OF django_first, of TestRequestAdapter DjangoResponseAdapter
      DjangoAppRequestInstrumentationConfigurator None]
  by (simp add: issubclass_def TestRequestAdapter_def DjangoResponseAdapter_def
      DjangoAppRequestInstrumentationConfigurator_def lower_Django)

section \<open>Properties of the correlation-id policy\<close>

lemma search_headers_find:
  "search_headers req hs =
     map_option (\<lambda>h. get_http_header req h PNone)
       (find (\<lambda>h. truthy (get_http_header req h PNone)) hs)"
  by (induction hs) (simp_all add: Let_def)

lemma example_find:
  "find (\<lambda>h. truthy (get_http_header example_request h PNone)) CORRELATION_ID_HEADERS
     = Some ''X-Request-ID''"
  by (simp add: CORRELATION_ID_HEADERS_def get_http_header_def converted_correlation_header
      converted_request_id_header example_request_def)

text \<open>
  C1: when the request carries one of the configured correlation-id headers with a present,
  non-empty value, resolving the correlation id returns the value of the first such header
  of the list, whatever the creation flag and the identifier the generator would mint, and
  writes nothing onto the request.
\<close>

theorem resolve_returns_first_header:
  assumes "find (\<lambda>h. truthy (get_http_header req h PNone)) header_names = Some h"
  shows "\<exists>v. META req (''HTTP_'' @ replace CHR ''-'' CHR ''_'' (upper h)) = Some v \<and> truthy v \<and>
             resolve header_names create_if_not_exists minted req = (v, req)"
proof -
  have t: "truthy (get_http_header req h PNone)"
    using assms by (auto simp add: find_Some_iff)
  then obtain v where v: "META req (''HTTP_'' @ replace CHR ''-'' CHR ''_'' (upper h)) = Some v"
    by (cases "META req (''HTTP_'' @ replace CHR ''-'' CHR ''_'' (upper h))")
       (simp_all add: get_http_header_def)
  then have g: "get_http_header req h PNone = v" by (simp add: get_http_header_def)
  have "resolve header_names create_if_not_exists minted req = (v, req)"
    by (simp add: resolve_def search_headers_find assms g)
  then show ?thesis using v t g by simp
qed

theorem resolve_returns_first_header_witness:
  "resolve CORRELATION_ID_HEADERS CREATE_CORRELATION_ID_IF_NOT_EXISTS (PStr ''minted-1'') example_request
     = (PStr ''req-42'', example_request)"
  using resolve_returns_first_header [OF example_find, of CREATE_CORRELATION_ID_IF_NOT_EXISTS "PStr ''minted-1''"]
  by (auto simp add: converted_request_id_header example_request_def)

section \<open>Properties of the log formatters\<close>

lemma map_of_dict_update:
  "distinct (map fst other) \<Longrightarrow>
   map_of (dict_update d other) k = (case map_of other k of Some v \<Rightarrow> Some v | None \<Rightarrow> map_of d k)"
proof (induction other arbitrary: d)
  case Nil
  then show ?case by (simp add: dict_update_def)
next
  case (Cons p other)
  obtain k' v' where p: "p = (k', v')" by (cases p)
  have step: "dict_update d (p # other) = dict_update (AList.update k' v' d) other"
    by (simp add: dict_update_def p)
  have d: "distinct (map fst other)" and notin: "k' \<notin> fst ` set other"
    using Cons.prems by (simp_all add: p)
  have none: "map_of other k' = None" using notin by (simp add: map_of_eq_None_iff)
  show ?case
    unfolding step Cons.IH [OF d]
    using none by (auto simp add: p update_conv' split: option.splits)
qed

lemma fixed_key_not_exc:
  "k \<in> fst ` set (log_fields u utcnow r) \<Longrightarrow> map_of (get_exc_fields r) k = None"
  by (auto simp add: log_fields_def get_exc_fields_def Let_def)

lemma web_fixed_key_not_exc:
  "k \<in> fst ` set (web_log_fields u utcnow r cid) \<Longrightarrow> map_of (get_exc_fields r) k = None"
  by (auto simp add: web_log_fields_def get_exc_fields_def Let_def)

lemma distinct_exc_fields: "distinct (map fst (get_exc_fields r))"
  by (simp add: get_exc_fields_def Let_def)

lemma merge_props_shadow:
  assumes "props r = Some p" "distinct (map fst p)" "map_of p k = Some v"
    and "map_of (get_exc_fields r) k = None"
  shows "map_of (merge_props_and_exc r base) k = Some v"
  using assms
  by (simp add: merge_props_and_exc_def Let_def map_of_dict_update distinct_exc_fields)

text \<open>
  C6: when the record carries properties, both log formatters merge them into the JSON
  object after the dictionary literal with the fixed fields, so for every key of the
  literal that is also a key of the properties the final object holds the value from the
  properties. (The properties are a dictionary: their keys are distinct.)
\<close>

theorem props_shadow_fixed_fields:
  assumes "props r = Some p" and "distinct (map fst p)" and "map_of p k = Some v"
  shows "(k \<in> fst ` set (log_fields u utcnow r) \<longrightarrow>
            map_of (JSONLogFormatter_json_log_object u utcnow r) k = Some v) \<and>
         (get_correlation_id_no_request ru = Inr cid \<longrightarrow>
          k \<in> fst ` set (web_log_fields u utcnow r cid) \<longrightarrow>
            (\<exists>obj. JSONLogWebFormatter_json_log_object u (Some ru) utcnow r = Inr obj \<and>
                   map_of obj k = Some v))"
  using assms
  by (simp add: JSONLogFormatter_json_log_object_def JSONLogWebFormatter_json_log_object_def
      merge_props_shadow fixed_key_not_exc web_fixed_key_not_exc)

theorem props_shadow_fixed_fields_witness:
  "map_of (JSONLogFormatter_json_log_object util_model 0 example_record) ''level'' = Some (PStr ''AUDIT'') \<and>
   (\<exists>obj. JSONLogWebFormatter_json_log_object util_model
            (Some \<lparr>get_correlation_id = get_correlation_id (RequestUtil_model PNone),
                   get_correlation_id_no_request = Inr (PStr ''req-42'')\<rparr>) 0 example_record = Inr obj \<and>
          map_of obj ''level'' = Some (PStr ''AUDIT''))"
  using props_shadow_fixed_fields [of example_record
      "[(''level'', PStr ''AUDIT''), (''tenant'', PStr ''t1'')]" "''level''" "PStr ''AUDIT''"
      util_model 0
      "\<lparr>get_correlation_id = get_correlation_id (RequestUtil_model PNone),
        get_correlation_id_no_request = Inr (PStr ''req-42'')\<rparr>" "PStr ''req-42''"]
  by (simp add: example_record_def log_fields_def web_log_fields_def)

lemma filter_update:
  "filter (\<lambda>(k', v'). P k') (AList.update k v al) =
     (if P k then AList.update k v (filter (\<lambda>(k', v'). P k') al) else filter (\<lambda>(k', v'). P k') al)"
  by (induction al) auto

lemma dict_update_Cons:
  "dict_update d ((k, v) # other) = dict_update (AList.update k v d) other"
  by (simp add: dict_update_def)

lemma filter_dict_update:
  "filter (\<lambda>(k', v'). P k') (dict_update d other) =
     dict_update (filter (\<lambda>(k', v'). P k') d) (filter (\<lambda>(k', v'). P k') other)"
proof (induction other arbitrary: d)
  case Nil
  then show ?case by (simp add: dict_update_def)
next
  case (Cons p other)
  obtain k v where p: "p = (k, v)" by (cases p)
  show ?case
    by (simp add: p dict_update_Cons Cons.IH filter_update)
qed

lemma without_timestamps_dict_update:
  "without_timestamps (dict_update d other) =
     dict_update (without_timestamps d) (without_timestamps other)"
  unfolding without_timestamps_def by (rule filter_dict_update)

lemma without_timestamps_merge:
  assumes "without_timestamps b1 = without_timestamps b2"
  shows "without_timestamps (merge_props_and_exc r b1) = without_timestamps (merge_props_and_exc r b2)"
  using assms
  by (simp add: merge_props_and_exc_def Let_def without_timestamps_dict_update split: option.splits)

text \<open>
  C7, as amended: formatting the same record twice with the same formatter gives JSON
  objects that are equal once \<open>written_at\<close> and \<open>written_ts\<close> are left out, for any two
  readings of the clock; the two timestamp fields of the literal are computed from the
  clock reading of the call itself.
\<close>

theorem format_twice_same_but_timestamps:
  "without_timestamps (JSONLogFormatter_json_log_object u t1 r) =
     without_timestamps (JSONLogFormatter_json_log_object u t2 r) \<and>
   map_sum id without_timestamps (JSONLogWebFormatter_json_log_object u ru t1 r) =
     map_sum id without_timestamps (JSONLogWebFormatter_json_log_object u ru t2 r) \<and>
   map_of (log_fields u t1 r) ''written_at'' = Some (PStr (iso_time_format u t1)) \<and>
   map_of (log_fields u t1 r) ''written_ts'' = Some (PInt (epoch_nano_second u t1))"
proof -
  have a: "without_timestamps (log_fields u t1 r) = without_timestamps (log_fields u t2 r)"
    by (simp add: without_timestamps_def log_fields_def)
  have b: "\<And>cid. without_timestamps (web_log_fields u t1 r cid) = without_timestamps (web_log_fields u t2 r cid)"
    by (simp add: without_timestamps_def web_log_fields_def)
  have plain: "without_timestamps (JSONLogFormatter_json_log_object u t1 r) =
     without_timestamps (JSONLogFormatter_json_log_object u t2 r)"
    unfolding JSONLogFormatter_json_log_object_def using a by (rule without_timestamps_merge)
  have web: "map_sum id without_timestamps (JSONLogWebFormatter_json_log_object u ru t1 r) =
     map_sum id without_timestamps (JSONLogWebFormatter_json_log_object u ru t2 r)"
    by (simp add: JSONLogWebFormatter_json_log_object_def without_timestamps_merge [OF b]
        split: option.splits sum.splits)
  have lit: "map_of (log_fields u t1 r) ''written_at'' = Some (PStr (iso_time_format u t1))"
    "map_of (log_fields u t1 r) ''written_ts'' = Some (PInt (epoch_nano_second u t1))"
    by (simp_all add: log_fields_def)
  show ?thesis using plain web lit by simp
qed

text \<open>
  C7 as stated fails: the timestamps are not generated once and kept with the record.
  Formatting the same record at two clock readings gives two different \<open>written_ts\<close>.
\<close>

theorem timestamps_recomputed_per_call:
  "map_of (JSONLogFormatter_json_log_object util_model 0 example_record) ''written_ts'' = Some (PInt 0) \<and>
   map_of (JSONLogFormatter_json_log_object util_model 1000 example_record) ''written_ts'' = Some (PInt 1000000) \<and>
   JSONLogFormatter_json_log_object util_model 0 example_record \<noteq>
     JSONLogFormatter_json_log_object util_model 1000 example_record"
proof -
  have a: "map_of (JSONLogFormatter_json_log_object util_model 0 example_record) ''written_ts'' = Some (PInt 0)"
    by (simp add: JSONLogFormatter_json_log_object_def merge_props_and_exc_def has_exception_def
        example_record_def log_fields_def dict_update_def util_model_def epoch_nano_second_model_def)
  have b: "map_of (JSONLogFormatter_json_log_object util_model 1000 example_record) ''written_ts'' = Some (PInt 1000000)"
    by (simp add: JSONLogFormatter_json_log_object_def merge_props_and_exc_def has_exception_def
        example_record_def log_fields_def dict_update_def util_model_def epoch_nano_second_model_def)
  from a b have "JSONLogFormatter_json_log_object util_model 0 example_record \<noteq>
     JSONLogFormatter_json_log_object util_model 1000 example_record" by auto
  with a b show ?thesis by simp
qed

section \<open>Finalizing twice, formatting too early\<close>

lemma getattr_None: "getattr a None = Inl (AttributeError a)"
  by (simp add: getattr_def)

lemma update_response_status_outcome:
  "fst (update_response_status u (Some ru) utcnow response self) =
     (case get_content_type response of Inl e \<Rightarrow> Inl e | Inr ct \<Rightarrow> Inr ())"
  by (simp add: update_response_status_def Let_def split: sum.splits)

lemma format_open_context_raises:
  "\<exists>e. JSONRequestLogFormatter_format serializer u ru now (RequestInfo_init u T req) = Inl e"
  by (simp add: JSONRequestLogFormatter_format_def JSONRequestLogFormatter_json_log_object_def
      RequestInfo_init_def getattr_None Let_def split: option.splits prod.splits sum.splits)

text \<open>
  C4, as amended: \<open>update_response_status\<close> has no guard. Its outcome does not depend on
  the \<open>RequestInfo\<close> it is called on, finalized before or not: it returns normally exactly
  when the adapter can read the content type of the response, and it assigns
  \<open>response_time_ms\<close> anew. Formatting an access-log record from a \<open>RequestInfo\<close> that was
  never finalized always raises, and with \<open>_request_util\<close> set and a correlation id that
  resolves the exception is the \<open>AttributeError\<close> for the missing \<open>response_time_ms\<close>.
\<close>

theorem finalize_unguarded_premature_format_raises:
  "fst (update_response_status u (Some ru) utcnow response self) =
     (case get_content_type response of Inl e \<Rightarrow> Inl e | Inr ct \<Rightarrow> Inr ()) \<and>
   response_time_ms (snd (update_response_status u (Some ru) utcnow response self)) =
     Some (int_of_float (total_seconds (utcnow - request_start self)) * 1000
           + int_of_float (truediv (microseconds (utcnow - request_start self)) 1000)) \<and>
   (\<exists>e. JSONRequestLogFormatter_format serializer u ru' now (RequestInfo_init u T req) = Inl e) \<and>
   (fst (get_correlation_id ru req) = Inr cid \<longrightarrow>
      JSONRequestLogFormatter_format serializer u (Some ru) now (RequestInfo_init u T req) =
        Inl (AttributeError ''response_time_ms''))"
proof -
  have "JSONRequestLogFormatter_format serializer u (Some ru) now (RequestInfo_init u T req) =
           Inl (AttributeError ''response_time_ms'')"
    if resolved: "fst (get_correlation_id ru req) = Inr cid"
  proof -
    obtain req' where r: "get_correlation_id ru req = (Inr cid, req')"
      using resolved by (cases "get_correlation_id ru req") simp
    show ?thesis
      by (simp add: JSONRequestLogFormatter_format_def JSONRequestLogFormatter_json_log_object_def
          RequestInfo_init_def r getattr_None Let_def)
  qed
  then show ?thesis
    using update_response_status_outcome [of u ru utcnow response self]
      response_time_ms_update [of u ru utcnow response self]
      format_open_context_raises [of serializer u ru' now T req]
    by simp
qed

theorem finalize_unguarded_premature_format_raises_witness:
  "fst (update_response_status util_model (Some (RequestUtil_model PNone)) 70000 example_response
       (snd (update_response_status util_model (Some (RequestUtil_model PNone)) 50000 example_response
          (RequestInfo_init util_model 0 example_request)))) = Inr () \<and>
   JSONRequestLogFormatter_format example_serializer util_model (Some (RequestUtil_model PNone)) 60000
       (RequestInfo_init util_model 0 example_request) = Inl (AttributeError ''response_time_ms'')"
  using finalize_unguarded_premature_format_raises [of util_model "RequestUtil_model PNone" 70000
         example_response
         "snd (update_response_status util_model (Some (RequestUtil_model PNone)) 50000 example_response
            (RequestInfo_init util_model 0 example_request))"
         example_serializer None 60000 0 example_request "PStr ''req-42''"]
  by (simp add: example_ctype example_cid)

text \<open>
  C4 as stated fails: a second \<open>update_response_status\<close> on a finalized \<open>RequestInfo\<close>
  raises nothing; it returns normally and replaces the elapsed time of the first call
  (50 ms) by its own (70 ms).
\<close>

theorem second_finalize_not_signaled:
  "fst (update_response_status util_model (Some (RequestUtil_model PNone)) 50000 example_response
          (RequestInfo_init util_model 0 example_request)) = Inr () \<and>
   response_time_ms (snd (update_response_status util_model (Some (RequestUtil_model PNone)) 50000
          example_response (RequestInfo_init util_model 0 example_request))) = Some 50 \<and>
   fst (update_response_status util_model (Some (RequestUtil_model PNone)) 70000 example_response
          (snd (update_response_status util_model (Some (RequestUtil_model PNone)) 50000 example_response
             (RequestInfo_init util_model 0 example_request)))) = Inr () \<and>
   response_time_ms (snd (update_response_status util_model (Some (RequestUtil_model PNone)) 70000
          example_response
          (snd (update_response_status util_model (Some (RequestUtil_model PNone)) 50000 example_response
             (RequestInfo_init util_model 0 example_request))))) = Some 70"
proof -
  have a: "int_of_float (total_seconds 50000) * 1000 + int_of_float (truediv (microseconds 50000) 1000) = 50"
    using response_time_exact [of 50000] by simp
  have b: "int_of_float (total_seconds 70000) * 1000 + int_of_float (truediv (microseconds 70000) 1000) = 70"
    using response_time_exact [of 70000] by simp
  show ?thesis
    by (simp add: update_response_status_ok [OF example_ctype] RequestInfo_init_def a b)
qed

end
